theory Spec2Isabelle
  imports Main "HOL-Library.Word"
begin

unbundle bit_operations_syntax

section \<open>Go values used by the encoder\<close>

text \<open>
  Fixed-width Go integers are words. Go's platform-sized \<open>int\<close> is a HOL \<open>int\<close>:
  the code does no arithmetic on it except \<open>len(enc.bytes) - 1\<close> and comparisons,
  and its conversion \<open>int64(v)\<close> is written out as \<open>word_of_int\<close>. \<open>uint\<close> and
  \<open>uintptr\<close> are 64 bits wide, as on amd64. A \<open>[]byte\<close> and a Go \<open>string\<close> are
  both a \<open>string\<close> (a list of bytes).
\<close>

type_synonym int32 = "32 word"
type_synonym int64 = "64 word"
type_synonym uint64 = "64 word"
type_synonym uint = "64 word"
type_synonym uintptr = "64 word"

text \<open>A \<open>float64\<close> is its IEEE 754 bit pattern (\<open>math.Float64bits\<close>).\<close>

type_synonym float64 = "64 word"

text \<open>
  \<open>Level\<close> is declared elsewhere in the package. \<open>Meta\<close> converts it to and from
  its \<open>int32\<close> cell and \<open>addLevel\<close> widens it to \<open>int64\<close>; it is taken to be a
  signed 32-bit integer type, compared by \<open>sint\<close>.
\<close>

type_synonym Level = "32 word"

subsection \<open>strconv\<close>

definition digitChar :: "nat \<Rightarrow> char" where
  "digitChar d = ''0123456789abcdefghijklmnopqrstuvwxyz'' ! d"

text \<open>The digits of \<open>n \<ge> 0\<close> in base \<open>b\<close>, most significant first (bases 2 to 36, as strconv accepts).\<close>

function formatBits :: "nat \<Rightarrow> int \<Rightarrow> string" where
  "formatBits b n =
     (if b < 2 \<or> 36 < b then []
      else if n < int b then [digitChar (nat n)]
      else formatBits b (n div int b) @ [digitChar (nat (n mod int b))])"
  by pat_completeness auto
termination
  by (relation "measure (\<lambda>(b, n). nat n)") (auto intro!: int_div_less_self)

declare formatBits.simps [simp del]

text \<open>\<open>strconv.AppendUint(dst, v, base)\<close> and \<open>strconv.AppendInt(dst, v, base)\<close>.\<close>

definition AppendUint :: "string \<Rightarrow> uint64 \<Rightarrow> nat \<Rightarrow> string" where
  "AppendUint dst v b = dst @ formatBits b (uint v)"

definition formatInt :: "nat \<Rightarrow> int \<Rightarrow> string" where
  "formatInt b i = (if i < 0 then ''-'' @ formatBits b (- i) else formatBits b i)"

definition AppendInt :: "string \<Rightarrow> int64 \<Rightarrow> nat \<Rightarrow> string" where
  "AppendInt dst v b = dst @ formatInt b (sint v)"

definition AppendBool :: "string \<Rightarrow> bool \<Rightarrow> string" where
  "AppendBool dst v = (if v then dst @ ''true'' else dst @ ''false'')"

subsection \<open>strconv.AppendFloat with format \<open>'f'\<close>, precision \<open>-1\<close>, bit size 64\<close>

text \<open>
  The encoder calls \<open>strconv.AppendFloat(dst, val, 'f', -1, 64)\<close> only. This is the
  documented behaviour of the standard library for these arguments: the precision
  \<open>-1\<close> uses the smallest number of digits necessary to represent the value
  uniquely, and \<open>'f'\<close> prints them as \<open>-ddd.ddd\<close> without an exponent.

  \<open>floatParts\<close> decodes the bit pattern as the library does: the sign, and \<open>m\<close>
  and \<open>e2\<close> with absolute value \<open>m * 2 ^ e2\<close>; the last component says that the
  float below is only half as far away as the float above (\<open>m\<close> is a power of two).
  A biased exponent of \<open>0x7FF\<close> (infinities, NaN) is handled by \<open>AppendFloat\<close>.
\<close>

definition floatParts :: "float64 \<Rightarrow> bool \<times> int \<times> int \<times> bool" where
  "floatParts v =
     (let neg = (drop_bit 63 v \<noteq> 0);
          e = uint (drop_bit 52 v AND 0x7FF);
          f = uint (v AND 0xFFFFFFFFFFFFF)
      in (neg, if e = 0 then f else f + 2 ^ 52, (if e = 0 then 1 else e) - 1075,
          f = 0 \<and> 1 < e))"

text \<open>
  The decimals that read back as the float are those between \<open>lo\<close> and \<open>hi\<close>, the
  midpoints to the neighbouring floats (the midpoints themselves when \<open>m\<close> is even:
  \<open>incl\<close>). \<open>lo\<close>, \<open>mid\<close> (the value) and \<open>hi\<close> are scaled by \<open>2 ^ s\<close>, which makes
  them integers. \<open>roundAt q\<close> looks at the multiples of \<open>10 ^ q\<close> next to the value,
  below (\<open>c\<close>) and above (\<open>c + 1\<close>): it returns the one that reads back, the nearer
  one when both do, the even one when they are equally near.
\<close>

definition roundAt ::
  "int \<Rightarrow> nat \<Rightarrow> int \<Rightarrow> int \<Rightarrow> int \<Rightarrow> bool \<Rightarrow> (int \<times> int) option" where
  "roundAt q s lo mid hi incl =
     (let t = 10 ^ nat (- q);
          u = 2 ^ s * 10 ^ nat q;
          c = (mid * t) div u;
          down = c * u;
          up = down + u;
          okdown = (lo * t < down \<or> (incl \<and> lo * t = down));
          okup = (up < hi * t \<or> (incl \<and> up = hi * t));
          r = 2 * (mid * t - down)
      in if okdown \<and> okup
         then (if r < u \<or> (r = u \<and> even c) then Some (c, q) else Some (c + 1, q))
         else if okdown then Some (c, q)
         else if okup then Some (c + 1, q)
         else None)"

text \<open>
  The shortest digits: the first position, from the leading digit of \<open>hi\<close> downwards,
  at which \<open>roundAt\<close> finds a decimal. The result \<open>(d, q)\<close> stands for \<open>d * 10 ^ q\<close>.
  The search ends at the last digit of the value's own decimal expansion at the
  latest, which is what the count allows for. \<open>floatBounds\<close> gives the scale and the
  scaled midpoints for the value \<open>m * 2 ^ e2\<close>.
\<close>

primrec shortestFrom ::
  "nat \<Rightarrow> int \<Rightarrow> nat \<Rightarrow> int \<Rightarrow> int \<Rightarrow> int \<Rightarrow> bool \<Rightarrow> int \<times> int \<Rightarrow> int \<times> int" where
  "shortestFrom 0 q s lo mid hi incl exact = exact"
| "shortestFrom (Suc n) q s lo mid hi incl exact =
     (case roundAt q s lo mid hi incl of
        Some r \<Rightarrow> r
      | None \<Rightarrow> shortestFrom n (q - 1) s lo mid hi incl exact)"

definition floatBounds :: "int \<Rightarrow> int \<Rightarrow> bool \<Rightarrow> nat \<times> int \<times> int \<times> int" where
  "floatBounds m e2 narrow =
     (let s = nat (- e2) + 2;
          mid = m * 2 ^ nat (e2 + int s);
          half = 2 ^ nat (e2 + int s - 1);
          hi = mid + half;
          lo = mid - (if narrow then 2 ^ nat (e2 + int s - 2) else half)
      in (s, lo, mid, hi))"

definition shortest :: "int \<Rightarrow> int \<Rightarrow> bool \<Rightarrow> int \<times> int" where
  "shortest m e2 narrow =
     (let (s, lo, mid, hi) = floatBounds m e2 narrow;
          q0 = int (length (formatBits 10 (hi div 2 ^ s)));
          exact = (if e2 < 0 then (m * 5 ^ nat (- e2), e2) else (m * 2 ^ nat e2, 0))
      in shortestFrom (nat (q0 - min e2 0) + 1) q0 s lo mid hi (even m) exact)"

text \<open>
  \<open>%f\<close>: the digits \<open>ds\<close> with the decimal point after the first \<open>dp\<close> of them,
  zeros filled in on either side, and as many digits after the point as there are.
\<close>

definition fmtF :: "string \<Rightarrow> int \<Rightarrow> string" where
  "fmtF ds dp =
     (let nd = int (length ds);
          prec = nat (max (nd - dp) 0)
      in (if dp > 0 then take (nat dp) ds @ replicate (nat (dp - nd)) (CHR ''0'') else ''0'')
         @ (if prec > 0
            then ''.'' @ map (\<lambda>i. let j = dp + int i
                                  in if 0 \<le> j \<and> j < nd then ds ! nat j else CHR ''0'')
                           [0..<prec]
            else []))"

definition AppendFloat :: "string \<Rightarrow> float64 \<Rightarrow> string" where
  "AppendFloat dst v =
     (let (neg, m, e2, narrow) = floatParts v
      in if uint (drop_bit 52 v AND 0x7FF) = 0x7FF
         then dst @ (if uint (v AND 0xFFFFFFFFFFFFF) \<noteq> 0 then ''NaN''
                     else if neg then ''-Inf'' else ''+Inf'')
         else dst @ (if neg then ''-'' else [])
              @ (if m = 0 then ''0''
                 else let (d, q) = shortest m e2 narrow;
                          ds = formatBits 10 d
                      in fmtF ds (int (length ds) + q)))"

subsection \<open>Formatters left open\<close>

text \<open>
  Two formatters of the standard library are parameters of the model:
  \<open>Time.AppendFormat\<close> (the rendering of a time value under a layout) and
  \<open>fmt.Sprintf\<close> with the verb \<open>%+v\<close>.
\<close>

record ('t, 'o) stdlib =
  TimeFormat :: "'t \<Rightarrow> string \<Rightarrow> string"
  SprintfPlusV :: "'o \<Rightarrow> string"

text \<open>\<open>time.RFC3339\<close>.\<close>

definition RFC3339 :: string where
  "RFC3339 = ''2006-01-02T15:04:05Z07:00''"

section \<open>The text encoder (meta.go)\<close>

record textEncoder =
  bytes :: string
  timeFmt :: string
  firstNested :: bool

text \<open>
  A Go \<open>error\<close> is either a value made elsewhere (by a sink or a marshaler) or the
  one \<open>fmt.Errorf\<close> builds here, which is its message. \<open>None\<close> is \<open>nil\<close>.
\<close>

datatype 'e error = Foreign 'e | ErrorString string

fun ErrorText :: "('e \<Rightarrow> string) \<Rightarrow> 'e error \<Rightarrow> string" where
  "ErrorText desc (Foreign e) = desc e"
| "ErrorText desc (ErrorString s) = s"

text \<open>
  An \<open>io.Writer\<close> or \<open>WriteSyncer\<close> is an object outside the encoder: the world
  keeps, for each sink, the calls it has received, and the sink's behaviour says what
  \<open>Write\<close> returns given the calls before it and the bytes handed over. A sink does
  not retain or change the slice it is given.
\<close>

datatype call = Write string | Sync

type_synonym sink = nat

type_synonym 'e sinks = "sink \<Rightarrow> call list \<Rightarrow> string \<Rightarrow> int \<times> 'e error option"

type_synonym addr = nat

record Meta =
  Development :: bool
  Encoder :: addr
  Output :: sink
  ErrorOutput :: sink
  lvl :: int32

text \<open>
  The world: the \<open>textEncoder\<close> objects by address (those below \<open>nxt\<close> have been
  allocated), the addresses \<open>textPool\<close> holds, the calls each sink has received, the
  cells that hold a \<open>Meta\<close> struct by value (those below \<open>mnxt\<close> are in use), and the
  package variable \<open>dlogger\<close> (\<open>None\<close> is \<open>nil\<close>; a \<open>*logger\<close> is the address of
  the cell of its embedded \<open>Meta\<close>).
\<close>

record world =
  heap :: "addr \<Rightarrow> textEncoder"
  nxt :: addr
  pool :: "addr list"
  sinks :: "sink \<Rightarrow> call list"
  metas :: "addr \<Rightarrow> Meta"
  mnxt :: addr
  dlogger :: "addr option"

text \<open>
  The level constants are declared elsewhere in the package; they are a parameter.
  Go rejects a switch with two equal constant cases, so they are pairwise different
  (\<open>levelsDistinct\<close> below).
\<close>

record levels =
  DebugLevel :: Level
  InfoLevel :: Level
  WarnLevel :: Level
  ErrorLevel :: Level
  PanicLevel :: Level
  FatalLevel :: Level

text \<open>
  What one call of \<open>log\<close> reads from its surroundings: the choices of the two
  \<open>textPool.Get()\<close>, the answer of \<open>runtime.Caller(3)\<close> and \<open>time.Now()\<close>.
\<close>

record 't reading =
  pickClone :: "nat option"
  pickFinal :: "nat option"
  rtCaller :: "(string \<times> int) option"
  timeNow :: 't

text \<open>
  Every method below has the receiver \<open>enc *textEncoder\<close> and touches only the
  object it points to: it is modelled by its effect on that object. The methods
  that take a second encoder from the pool are modelled on the store, further down.
\<close>

definition truncate :: "textEncoder \<Rightarrow> textEncoder" where
  "truncate enc = enc\<lparr>bytes := []\<rparr>"

definition addKey :: "string \<Rightarrow> textEncoder \<Rightarrow> textEncoder" where
  "addKey key enc =
     (let lastIdx = int (length (bytes enc)) - 1;
          enc1 = (if lastIdx \<ge> 0 \<and> \<not> firstNested enc
                  then enc\<lparr>bytes := bytes enc @ '' ''\<rparr>
                  else enc\<lparr>firstNested := False\<rparr>);
          enc2 = enc1\<lparr>bytes := bytes enc1 @ key\<rparr>
      in enc2\<lparr>bytes := bytes enc2 @ ''=''\<rparr>)"

definition AddString :: "string \<Rightarrow> string \<Rightarrow> textEncoder \<Rightarrow> textEncoder" where
  "AddString key val enc =
     (let enc1 = addKey key enc in enc1\<lparr>bytes := bytes enc1 @ val\<rparr>)"

definition AddBool :: "string \<Rightarrow> bool \<Rightarrow> textEncoder \<Rightarrow> textEncoder" where
  "AddBool key val enc =
     (let enc1 = addKey key enc in enc1\<lparr>bytes := AppendBool (bytes enc1) val\<rparr>)"

definition AddInt64 :: "string \<Rightarrow> int64 \<Rightarrow> textEncoder \<Rightarrow> textEncoder" where
  "AddInt64 key val enc =
     (let enc1 = addKey key enc in enc1\<lparr>bytes := AppendInt (bytes enc1) val 10\<rparr>)"

definition AddInt :: "string \<Rightarrow> int \<Rightarrow> textEncoder \<Rightarrow> textEncoder" where
  "AddInt key val enc = AddInt64 key (word_of_int val) enc"

definition AddUint64 :: "string \<Rightarrow> uint64 \<Rightarrow> textEncoder \<Rightarrow> textEncoder" where
  "AddUint64 key val enc =
     (let enc1 = addKey key enc in enc1\<lparr>bytes := AppendUint (bytes enc1) val 10\<rparr>)"

definition AddUint :: "string \<Rightarrow> uint \<Rightarrow> textEncoder \<Rightarrow> textEncoder" where
  "AddUint key val enc = AddUint64 key (ucast val) enc"

definition AddUintptr :: "string \<Rightarrow> uintptr \<Rightarrow> textEncoder \<Rightarrow> textEncoder" where
  "AddUintptr key val enc =
     (let enc1 = addKey key enc;
          enc2 = enc1\<lparr>bytes := bytes enc1 @ ''0x''\<rparr>
      in enc2\<lparr>bytes := AppendUint (bytes enc2) (ucast val) 16\<rparr>)"

definition AddFloat64 :: "string \<Rightarrow> float64 \<Rightarrow> textEncoder \<Rightarrow> textEncoder" where
  "AddFloat64 key val enc =
     (let enc1 = addKey key enc in enc1\<lparr>bytes := AppendFloat (bytes enc1) val\<rparr>)"

text \<open>
  A \<open>LogMarshaler\<close> is given by what its \<open>MarshalLog\<close> does with the sink it is
  handed, here always the encoder itself: the error it returns (\<open>None\<close> is \<open>nil\<close>)
  and the encoder it leaves behind.
\<close>

type_synonym 'e LogMarshaler = "textEncoder \<Rightarrow> 'e option \<times> textEncoder"

definition AddMarshaler ::
  "string \<Rightarrow> 'e LogMarshaler \<Rightarrow> textEncoder \<Rightarrow> 'e option \<times> textEncoder" where
  "AddMarshaler key obj enc =
     (let enc1 = addKey key enc;
          enc2 = enc1\<lparr>firstNested := True\<rparr>;
          enc3 = enc2\<lparr>bytes := bytes enc2 @ ''{''\<rparr>;
          (err, enc4) = obj enc3;
          enc5 = enc4\<lparr>bytes := bytes enc4 @ ''}''\<rparr>;
          enc6 = enc5\<lparr>firstNested := False\<rparr>
      in (err, enc6))"

definition AddObject ::
  "('t, 'o) stdlib \<Rightarrow> string \<Rightarrow> 'o \<Rightarrow> textEncoder \<Rightarrow> 'e option \<times> textEncoder" where
  "AddObject lib key obj enc = (None, AddString key (SprintfPlusV lib obj) enc)"

section \<open>The pool and the sinks\<close>

text \<open>Running a method of the encoder at address \<open>p\<close>.\<close>

definition on :: "addr \<Rightarrow> (textEncoder \<Rightarrow> textEncoder) \<Rightarrow> world \<Rightarrow> world" where
  "on p f w = w\<lparr>heap := (heap w)(p := f (heap w p))\<rparr>"

text \<open>
  \<open>textPool.Get()\<close>: \<open>sync.Pool\<close> hands out any one of the objects it holds, or
  ignores them and calls \<open>New\<close>. Which one is the argument \<open>pick\<close>: \<open>Some i\<close> takes
  the \<open>i\<close>-th pooled object when there is one, anything else allocates
  \<open>&textEncoder{bytes: make([]byte, 0, 1024)}\<close>.
\<close>

definition poolNew :: "world \<Rightarrow> addr \<times> world" where
  "poolNew w =
     (nxt w,
      w\<lparr>heap := (heap w)(nxt w := \<lparr>bytes = [], timeFmt = [], firstNested = False\<rparr>),
        nxt := Suc (nxt w)\<rparr>)"

definition poolGet :: "nat option \<Rightarrow> world \<Rightarrow> addr \<times> world" where
  "poolGet pick w =
     (case pick of
        None \<Rightarrow> poolNew w
      | Some i \<Rightarrow>
          if i < length (pool w)
          then (pool w ! i, w\<lparr>pool := take i (pool w) @ drop (Suc i) (pool w)\<rparr>)
          else poolNew w)"

definition Free :: "addr \<Rightarrow> world \<Rightarrow> world" where
  "Free enc w = w\<lparr>pool := enc # pool w\<rparr>"

text \<open>A text option is what its \<open>apply\<close> does to the encoder.\<close>

type_synonym TextOption = "textEncoder \<Rightarrow> textEncoder"

definition TextTimeFormat :: "string \<Rightarrow> TextOption" where
  "TextTimeFormat layout = (\<lambda>enc. enc\<lparr>timeFmt := layout\<rparr>)"

definition TextNoTime :: TextOption where
  "TextNoTime = TextTimeFormat []"

definition NewTextEncoder :: "TextOption list \<Rightarrow> nat option \<Rightarrow> world \<Rightarrow> addr \<times> world" where
  "NewTextEncoder options pick w =
     (let (enc, w1) = poolGet pick w;
          w2 = on enc truncate w1;
          w3 = on enc (\<lambda>e. e\<lparr>timeFmt := RFC3339\<rparr>) w2
      in (enc, fold (\<lambda>opt. on enc opt) options w3))"

definition Clone :: "nat option \<Rightarrow> addr \<Rightarrow> world \<Rightarrow> addr \<times> world" where
  "Clone pick enc w =
     (let (clone, w1) = poolGet pick w;
          w2 = on clone truncate w1;
          w3 = on clone (\<lambda>c. c\<lparr>bytes := bytes c @ bytes (heap w2 enc)\<rparr>) w2;
          w4 = on clone (\<lambda>c. c\<lparr>timeFmt := timeFmt (heap w3 enc)\<rparr>) w3;
          w5 = on clone (\<lambda>c. c\<lparr>firstNested := firstNested (heap w4 enc)\<rparr>) w4
      in (clone, w5))"

subsection \<open>Rendering an entry\<close>

definition levelsDistinct :: "levels \<Rightarrow> bool" where
  "levelsDistinct lv =
     distinct [DebugLevel lv, InfoLevel lv, WarnLevel lv, ErrorLevel lv, PanicLevel lv,
               FatalLevel lv]"

text \<open>The switch of \<open>addLevel\<close>, cases in the order of the source.\<close>

definition levelTag :: "levels \<Rightarrow> Level \<Rightarrow> string" where
  "levelTag lv l =
     (if l = DebugLevel lv then ''D''
      else if l = InfoLevel lv then ''I''
      else if l = WarnLevel lv then ''W''
      else if l = ErrorLevel lv then ''E''
      else if l = PanicLevel lv then ''P''
      else if l = FatalLevel lv then ''F''
      else AppendInt [] (scast l) 10)"

definition addLevel :: "levels \<Rightarrow> addr \<Rightarrow> Level \<Rightarrow> world \<Rightarrow> world" where
  "addLevel lv final l w =
     (let w1 = on final (\<lambda>f. f\<lparr>bytes := bytes f @ ''[''\<rparr>) w;
          w2 = on final (\<lambda>f. f\<lparr>bytes := bytes f @ levelTag lv l\<rparr>) w1
      in on final (\<lambda>f. f\<lparr>bytes := bytes f @ '']''\<rparr>) w2)"

definition addTime ::
  "('t, 'o) stdlib \<Rightarrow> addr \<Rightarrow> addr \<Rightarrow> 't \<Rightarrow> world \<Rightarrow> world" where
  "addTime lib enc final t w =
     (if timeFmt (heap w enc) = [] then w
      else let w1 = on final (\<lambda>f. f\<lparr>bytes := bytes f @ '' ''\<rparr>) w
           in on final (\<lambda>f. f\<lparr>bytes := bytes f @ TimeFormat lib t (timeFmt (heap w1 enc))\<rparr>) w1)"

definition addCaller :: "addr \<Rightarrow> string \<Rightarrow> int \<Rightarrow> world \<Rightarrow> world" where
  "addCaller final caller line w =
     (let w1 = on final (\<lambda>f. f\<lparr>bytes := bytes f @ '' [''\<rparr>) w;
          w2 = on final (\<lambda>f. f\<lparr>bytes := bytes f @ caller\<rparr>) w1;
          w3 = on final (\<lambda>f. f\<lparr>bytes := bytes f @ '':''\<rparr>) w2;
          w4 = on final (\<lambda>f. f\<lparr>bytes := AppendInt (bytes f) (word_of_int line) 10\<rparr>) w3
      in on final (\<lambda>f. f\<lparr>bytes := bytes f @ '']''\<rparr>) w4)"

definition addMessage :: "addr \<Rightarrow> string \<Rightarrow> world \<Rightarrow> world" where
  "addMessage final msg w =
     (let w1 = on final (\<lambda>f. f\<lparr>bytes := bytes f @ '' ''\<rparr>) w
      in on final (\<lambda>f. f\<lparr>bytes := bytes f @ msg\<rparr>) w1)"

text \<open>\<open>sink.Write(bs)\<close>: the sink records the call and answers as its behaviour says.\<close>

definition sinkWrite ::
  "'e sinks \<Rightarrow> sink \<Rightarrow> string \<Rightarrow> world \<Rightarrow> (int \<times> 'e error option) \<times> world" where
  "sinkWrite beh k bs w =
     (beh k (sinks w k) bs, w\<lparr>sinks := (sinks w)(k := sinks w k @ [Write bs])\<rparr>)"

definition sinkSync :: "sink \<Rightarrow> world \<Rightarrow> world" where
  "sinkSync k w = w\<lparr>sinks := (sinks w)(k := sinks w k @ [Sync])\<rparr>"

definition incompleteWrite :: "int \<Rightarrow> int \<Rightarrow> 'e error" where
  "incompleteWrite n expectedBytes =
     ErrorString (''incomplete write: only wrote '' @ formatInt 10 n @ '' of ''
                  @ formatInt 10 expectedBytes @ '' bytes'')"

text \<open>
  \<open>WriteEntry\<close> in its two parts. \<open>assemble\<close> is the first: it takes \<open>final\<close>
  from the pool and renders the entry into it (down to the newline), and returns
  \<open>final\<close>.
\<close>

definition assemble ::
  "('t, 'o) stdlib \<Rightarrow> levels \<Rightarrow> nat option \<Rightarrow> addr \<Rightarrow> string \<Rightarrow> int \<Rightarrow> string \<Rightarrow>
   Level \<Rightarrow> 't \<Rightarrow> world \<Rightarrow> addr \<times> world" where
  "assemble lib lv pick enc caller line msg l t w =
     (let (final, w1) = poolGet pick w;
          w2 = on final truncate w1;
          w3 = addLevel lv final l w2;
          w4 = addTime lib enc final t w3;
          w5 = addCaller final caller line w4;
          w6 = addMessage final msg w5;
          w7 = (if int (length (bytes (heap w6 enc))) > 0
                then let w6a = on final (\<lambda>f. f\<lparr>bytes := bytes f @ '' ''\<rparr>) w6
                     in on final (\<lambda>f. f\<lparr>bytes := bytes f @ bytes (heap w6a enc)\<rparr>) w6a
                else w6)
      in (final, on final (\<lambda>f. f\<lparr>bytes := bytes f @ [CHR 0x0A]\<rparr>) w7))"

text \<open>The second part: the one \<open>Write\<close>, the release of \<open>final\<close>, and the result.\<close>

definition WriteEntry ::
  "('t, 'o) stdlib \<Rightarrow> levels \<Rightarrow> 'e sinks \<Rightarrow> nat option \<Rightarrow> addr \<Rightarrow> sink \<Rightarrow> string \<Rightarrow>
   int \<Rightarrow> string \<Rightarrow> Level \<Rightarrow> 't \<Rightarrow> world \<Rightarrow> 'e error option \<times> world" where
  "WriteEntry lib lv beh pick enc k caller line msg l t w =
     (let (final, w8) = assemble lib lv pick enc caller line msg l t w;
          expectedBytes = int (length (bytes (heap w8 final)));
          ((n, err), w9) = sinkWrite beh k (bytes (heap w8 final)) w8;
          w10 = Free final w9
      in case err of
           Some e \<Rightarrow> (Some e, w10)
         | None \<Rightarrow>
             if n \<noteq> expectedBytes then (Some (incompleteWrite n expectedBytes), w10)
             else (None, w10))"

section \<open>Fields\<close>

text \<open>
  Modelled from the spec: \<open>Field\<close>, its constructors and \<open>addFields\<close> are declared
  elsewhere in the package. The spec gives a field as a key with one of the kinds String, Bool,
  Int64, Uint64, Uintptr, Float64, Marshaler and Object, has the per-call fields applied
  to the clone through the key/value contract, and has them render in the order added.
  \<open>logger.log\<close> calls \<open>addFields(temp, fields)\<close> as a statement, so an error of
  \<open>AddMarshaler\<close> or \<open>AddObject\<close> reaches nobody.
\<close>

datatype ('o, 'e) Field =
    String string string
  | Bool string bool
  | Int64 string int64
  | Uint64 string uint64
  | Uintptr string uintptr
  | Float64 string float64
  | Marshaler string "'e error LogMarshaler"
  | Object string 'o

text \<open>The constructor \<open>Int\<close>, for a Go \<open>int\<close>.\<close>

definition Int' :: "string \<Rightarrow> int \<Rightarrow> ('o, 'e) Field" where
  "Int' key val = Int64 key (word_of_int val)"

fun AddTo :: "('t, 'o) stdlib \<Rightarrow> ('o, 'e) Field \<Rightarrow> textEncoder \<Rightarrow> textEncoder" where
  "AddTo lib (String key val) kv = AddString key val kv"
| "AddTo lib (Bool key val) kv = AddBool key val kv"
| "AddTo lib (Int64 key val) kv = AddInt64 key val kv"
| "AddTo lib (Uint64 key val) kv = AddUint64 key val kv"
| "AddTo lib (Uintptr key val) kv = AddUintptr key val kv"
| "AddTo lib (Float64 key val) kv = AddFloat64 key val kv"
| "AddTo lib (Marshaler key obj) kv = snd (AddMarshaler key obj kv)"
| "AddTo lib (Object key obj) kv = snd (AddObject lib key obj kv :: 'e error option \<times> textEncoder)"

definition addFields ::
  "('t, 'o) stdlib \<Rightarrow> ('o, 'e) Field list \<Rightarrow> textEncoder \<Rightarrow> textEncoder" where
  "addFields lib flds kv = fold (AddTo lib) flds kv"

section \<open>Meta and the logger\<close>

text \<open>\<open>os.Stdout\<close> and \<open>os.Stderr\<close>.\<close>

definition Stdout :: sink where
  "Stdout = 1"

definition Stderr :: sink where
  "Stderr = 2"

text \<open>
  \<open>newLockedWriteSyncer\<close> wraps a sink in a mutex; its \<open>Write\<close> and \<open>Sync\<close> pass the
  call on to the sink wrapped and return what it returns. Without concurrent callers
  the wrapper is the sink.
\<close>

definition newLockedWriteSyncer :: "sink \<Rightarrow> sink" where
  "newLockedWriteSyncer ws = ws"

definition MakeMeta :: "levels \<Rightarrow> addr \<Rightarrow> Meta" where
  "MakeMeta lv enc =
     \<lparr>Development = False, Encoder = enc, Output = newLockedWriteSyncer Stdout,
      ErrorOutput = newLockedWriteSyncer Stderr, lvl = InfoLevel lv\<rparr>"

text \<open>
  The methods of \<open>Meta\<close> have the value receiver \<open>m Meta\<close>: a call copies the
  caller's struct into the cell of the parameter \<open>m\<close>, and the body works on that
  cell. \<open>Level\<close> only reads its copy. \<open>SetLevel\<close> stores through \<open>&m.lvl\<close>, the
  address of the field in the parameter's cell; the cell stays in the model after the
  return, where nothing refers to it any more.
\<close>

definition Level :: "addr \<Rightarrow> world \<Rightarrow> Level" where
  "Level a w = lvl (metas w a)"

definition SetLevel :: "addr \<Rightarrow> Level \<Rightarrow> world \<Rightarrow> world" where
  "SetLevel a l w =
     (let m = mnxt w;
          w1 = w\<lparr>metas := (metas w)(m := metas w a), mnxt := Suc m\<rparr>
      in w1\<lparr>metas := (metas w1)(m := (metas w1 m)\<lparr>lvl := l\<rparr>)\<rparr>)"

text \<open>
  \<open>Meta.Clone\<close> returns the struct; \<open>MetaClone\<close> also puts it into the cell of the
  variable the caller assigns it to, and returns that cell. \<open>MetaCopy\<close> is the plain
  assignment \<open>c := m\<close>.
\<close>

definition MetaCopy :: "addr \<Rightarrow> world \<Rightarrow> addr \<times> world" where
  "MetaCopy a w = (mnxt w, w\<lparr>metas := (metas w)(mnxt w := metas w a), mnxt := Suc (mnxt w)\<rparr>)"

definition MetaClone :: "nat option \<Rightarrow> addr \<Rightarrow> world \<Rightarrow> addr \<times> world" where
  "MetaClone pick a w =
     (let m = metas w a;
          (c, w1) = Clone pick (Encoder m) w;
          m1 = m\<lparr>Encoder := c\<rparr>
      in (mnxt w1, w1\<lparr>metas := (metas w1)(mnxt w1 := m1), mnxt := Suc (mnxt w1)\<rparr>))"

subsection \<open>The caller\<close>

text \<open>\<open>path.Base\<close>: the last element of a slash-separated path.\<close>

definition Base :: "string \<Rightarrow> string" where
  "Base path =
     (if path = [] then ''.''
      else let p1 = rev (dropWhile (\<lambda>c. c = CHR ''/'') (rev path));
               p2 = rev (takeWhile (\<lambda>c. c \<noteq> CHR ''/'') (rev p1))
           in if p2 = [] then ''/'' else p2)"

text \<open>
  \<open>CallerName1\<close>, given what \<open>runtime.Caller(3)\<close> reports: the file and the line, or
  \<open>None\<close> when \<open>ok\<close> is false.
\<close>

definition CallerName1 :: "(string \<times> int) option \<Rightarrow> string \<times> int" where
  "CallerName1 rc = (case rc of None \<Rightarrow> ([], 0) | Some (file, line) \<Rightarrow> (Base file, line))"

subsection \<open>logger.log\<close>

definition internalError :: "'e sinks \<Rightarrow> addr \<Rightarrow> string \<Rightarrow> world \<Rightarrow> world" where
  "internalError beh a msg w =
     (let (r, w1) = sinkWrite beh (ErrorOutput (metas w a)) (msg @ [CHR 0x0A]) w
      in sinkSync (ErrorOutput (metas w1 a)) w1)"

definition log ::
  "('t, 'o) stdlib \<Rightarrow> levels \<Rightarrow> 'e sinks \<Rightarrow> ('e \<Rightarrow> string) \<Rightarrow> 't reading \<Rightarrow> addr \<Rightarrow>
   Level \<Rightarrow> string \<Rightarrow> ('o, 'e) Field list \<Rightarrow> world \<Rightarrow> world" where
  "log lib lv beh desc rd a l msg flds w =
     (if \<not> (sint l \<ge> sint (Level a w)) then w
      else
        let (temp, w1) = Clone (pickClone rd) (Encoder (metas w a)) w;
            w2 = on temp (addFields lib flds) w1;
            (caller, line) = CallerName1 (rtCaller rd);
            (err, w3) = WriteEntry lib lv beh (pickFinal rd) temp (Output (metas w2 a))
                          caller line msg l (timeNow rd) w2;
            w4 = (case err of
                    Some e \<Rightarrow> internalError beh a (ErrorText desc e) w3
                  | None \<Rightarrow> w3)
        in Free temp w4)"

text \<open>
  The package functions log through \<open>dlogger\<close>; before \<open>Init\<close> it is \<open>nil\<close> and the
  call panics (\<open>None\<close>).
\<close>

definition Debug ::
  "('t, 'o) stdlib \<Rightarrow> levels \<Rightarrow> 'e sinks \<Rightarrow> ('e \<Rightarrow> string) \<Rightarrow> 't reading \<Rightarrow>
   string \<Rightarrow> ('o, 'e) Field list \<Rightarrow> world \<Rightarrow> world option" where
  "Debug lib lv beh desc rd msg flds w =
     (case dlogger w of
        None \<Rightarrow> None
      | Some a \<Rightarrow> Some (log lib lv beh desc rd a (DebugLevel lv) msg flds w))"

definition Info ::
  "('t, 'o) stdlib \<Rightarrow> levels \<Rightarrow> 'e sinks \<Rightarrow> ('e \<Rightarrow> string) \<Rightarrow> 't reading \<Rightarrow>
   string \<Rightarrow> ('o, 'e) Field list \<Rightarrow> world \<Rightarrow> world option" where
  "Info lib lv beh desc rd msg flds w =
     (case dlogger w of
        None \<Rightarrow> None
      | Some a \<Rightarrow> Some (log lib lv beh desc rd a (InfoLevel lv) msg flds w))"

definition Warn ::
  "('t, 'o) stdlib \<Rightarrow> levels \<Rightarrow> 'e sinks \<Rightarrow> ('e \<Rightarrow> string) \<Rightarrow> 't reading \<Rightarrow>
   string \<Rightarrow> ('o, 'e) Field list \<Rightarrow> world \<Rightarrow> world option" where
  "Warn lib lv beh desc rd msg flds w =
     (case dlogger w of
        None \<Rightarrow> None
      | Some a \<Rightarrow> Some (log lib lv beh desc rd a (WarnLevel lv) msg flds w))"

definition Error ::
  "('t, 'o) stdlib \<Rightarrow> levels \<Rightarrow> 'e sinks \<Rightarrow> ('e \<Rightarrow> string) \<Rightarrow> 't reading \<Rightarrow>
   string \<Rightarrow> ('o, 'e) Field list \<Rightarrow> world \<Rightarrow> world option" where
  "Error lib lv beh desc rd msg flds w =
     (case dlogger w of
        None \<Rightarrow> None
      | Some a \<Rightarrow> Some (log lib lv beh desc rd a (ErrorLevel lv) msg flds w))"

text \<open>
  \<open>Init\<close>, given what \<open>os.OpenFile\<close> returns (the file as a sink, or its error) and the
  choice of the pool. The goroutine it starts only calls \<open>f.Sync()\<close> on a ticker and
  is left out.
\<close>

definition Init :: "levels \<Rightarrow> 'e error + sink \<Rightarrow> nat option \<Rightarrow> world \<Rightarrow> 'e error option \<times> world" where
  "Init lv opened pick w =
     (case opened of
        Inl err \<Rightarrow> (Some err, w)
      | Inr f \<Rightarrow>
          let (enc, w1) = NewTextEncoder [] pick w;
              a = mnxt w1;
              w2 = w1\<lparr>metas := (metas w1)(a := MakeMeta lv enc), mnxt := Suc a,
                      dlogger := Some a\<rparr>;
              w3 = w2\<lparr>metas := (metas w2)(a := (metas w2 a)\<lparr>Output := newLockedWriteSyncer f\<rparr>)\<rparr>
          in (None, w3))"

section \<open>Notions used to state the properties\<close>

text \<open>
  An encoder is live when it has been allocated and is not held by the pool: somebody
  owns it. The pool is in order when it holds allocated encoders, each once (no
  encoder was freed twice).
\<close>

definition live :: "addr \<Rightarrow> world \<Rightarrow> bool" where
  "live p w \<longleftrightarrow> p < nxt w \<and> p \<notin> set (pool w)"

definition poolOK :: "world \<Rightarrow> bool" where
  "poolOK w \<longleftrightarrow> distinct (pool w) \<and> list_all (\<lambda>p. p < nxt w) (pool w)"

text \<open>
  The line of an entry, for an encoder holding \<open>e\<close>: level tag, timestamp unless
  the format is empty, caller, message, context unless it is empty, newline.
\<close>

definition entryLine ::
  "('t, 'o) stdlib \<Rightarrow> levels \<Rightarrow> textEncoder \<Rightarrow> string \<Rightarrow> int \<Rightarrow> string \<Rightarrow> Level \<Rightarrow> 't \<Rightarrow>
   string" where
  "entryLine lib lv e caller line msg l t =
     ''['' @ levelTag lv l @ '']''
     @ (if timeFmt e = [] then [] else '' '' @ TimeFormat lib t (timeFmt e))
     @ '' ['' @ caller @ '':'' @ AppendInt [] (word_of_int line) 10 @ '']''
     @ '' '' @ msg
     @ (if bytes e = [] then [] else '' '' @ bytes e)
     @ [CHR 0x0A]"

text \<open>What \<open>WriteEntry\<close> returns when \<open>Write\<close> answered \<open>r\<close> to the bytes \<open>bs\<close>.\<close>

definition writeResult :: "int \<times> 'e error option \<Rightarrow> string \<Rightarrow> 'e error option" where
  "writeResult r bs =
     (case snd r of
        Some e \<Rightarrow> Some e
      | None \<Rightarrow>
          if fst r \<noteq> int (length bs) then Some (incompleteWrite (fst r) (int (length bs)))
          else None)"




subsection \<open>Sample inputs\<close>

text \<open>
  A world in which nothing has happened yet, one assignment of the level constants,
  a library whose time formatter prints the time it is given (a time is its RFC 3339
  text), and three sinks: one that takes every byte, one that reports three bytes
  written, one that fails.
\<close>

definition world0 :: world where
  "world0 =
     \<lparr>heap = (\<lambda>p. \<lparr>bytes = [], timeFmt = [], firstNested = False\<rparr>), nxt = 0, pool = [],
      sinks = (\<lambda>k. []),
      metas = (\<lambda>a. \<lparr>Development = False, Encoder = 0, Output = 0, ErrorOutput = 0, lvl = 0\<rparr>),
      mnxt = 0, dlogger = None\<rparr>"

text \<open>The same world after \<open>NewTextEncoder()\<close> and one field added: an encoder at address 0.\<close>

definition world1 :: world where
  "world1 = on 0 (AddString ''svc'' ''api'') (snd (NewTextEncoder [] None world0))"

text \<open>The world after \<open>NewTextEncoder(TextNoTime())\<close>: at address 0, an encoder without time format.\<close>

definition worldNT :: world where
  "worldNT = snd (NewTextEncoder [TextNoTime] None world0)"

definition levels0 :: levels where
  "levels0 =
     \<lparr>DebugLevel = - 1, InfoLevel = 0, WarnLevel = 1, ErrorLevel = 2, PanicLevel = 3,
      FatalLevel = 4\<rparr>"

definition stdlib0 :: "(string, unit) stdlib" where
  "stdlib0 = \<lparr>TimeFormat = (\<lambda>t layout. t), SprintfPlusV = (\<lambda>obj. [])\<rparr>"

definition sinkFull :: "unit sinks" where
  "sinkFull k calls bs = (int (length bs), None)"

definition sinkShort :: "unit sinks" where
  "sinkShort k calls bs = (3, None)"

definition sinkFailing :: "unit sinks" where
  "sinkFailing k calls bs = (0, Some (Foreign ()))"

text \<open>
  The world after \<open>Init\<close> has opened the log file as sink 3: the default logger is
  the \<open>Meta\<close> in cell 0, at \<open>InfoLevel\<close>, with the encoder at address 0.
\<close>

definition worldL :: world where
  "worldL = snd (Init levels0 (Inr 3 :: unit error + sink) None world0)"

text \<open>How an error of a sink reads, and what one call of \<open>log\<close> finds around it.\<close>

definition errText0 :: "unit \<Rightarrow> string" where
  "errText0 e = ''error''"

definition reading0 :: "string reading" where
  "reading0 =
     \<lparr>pickClone = None, pickFinal = None, rtCaller = Some (''/home/app/file.go'', 42),
      timeNow = ''2024-01-01T00:00:00Z''\<rparr>"



text \<open>\<open>world1\<close> with the variable \<open>m := MakeMeta(enc)\<close> in cell 0.\<close>

definition worldM :: world where
  "worldM = world1\<lparr>metas := (metas world1)(0 := MakeMeta levels0 0), mnxt := 1\<rparr>"


section \<open>The pool and the rendering steps\<close>

lemma poolGet_cases:
  "poolGet pick w = poolNew w \<or>
   (\<exists>i. pick = Some i \<and> i < length (pool w) \<and>
        poolGet pick w = (pool w ! i, w\<lparr>pool := take i (pool w) @ drop (Suc i) (pool w)\<rparr>))"
  by (auto simp: poolGet_def split: option.splits)

lemma poolGet_live_neq:
  assumes "live enc w" "poolGet pick w = (p, w1)"
  shows "p \<noteq> enc"
  using assms poolGet_cases [of pick w]
  by (auto simp: live_def poolNew_def)

lemma poolGet_frame:
  assumes "poolGet pick w = (p, w1)"
  shows "sinks w1 = sinks w" "metas w1 = metas w" "mnxt w1 = mnxt w" "dlogger w1 = dlogger w"
    "\<And>q. q \<noteq> p \<Longrightarrow> heap w1 q = heap w q"
  using assms poolGet_cases [of pick w]
  by (auto simp: poolNew_def)

lemma on_heap [simp]: "heap (on p f w) = (heap w)(p := f (heap w p))"
  by (simp add: on_def)

lemma on_other [simp]:
  "sinks (on p f w) = sinks w" "pool (on p f w) = pool w" "nxt (on p f w) = nxt w"
  "metas (on p f w) = metas w" "mnxt (on p f w) = mnxt w" "dlogger (on p f w) = dlogger w"
  by (simp_all add: on_def)

lemma addLevel_eq:
  "addLevel lv final l w =
     on final (\<lambda>f. f\<lparr>bytes := bytes f @ ''['' @ levelTag lv l @ '']''\<rparr>) w"
  by (simp add: addLevel_def on_def)

lemma addTime_eq:
  "final \<noteq> enc \<Longrightarrow> addTime lib enc final t w =
     on final (\<lambda>f. f\<lparr>bytes := bytes f @ (if timeFmt (heap w enc) = [] then []
                                          else '' '' @ TimeFormat lib t (timeFmt (heap w enc)))\<rparr>) w"
  by (simp add: addTime_def on_def)

lemma addCaller_eq:
  "addCaller final caller line w =
     on final (\<lambda>f. f\<lparr>bytes := bytes f @ '' ['' @ caller @ '':''
                                  @ AppendInt [] (word_of_int line) 10 @ '']''\<rparr>) w"
  by (simp add: addCaller_def on_def AppendInt_def)

lemma addMessage_eq:
  "addMessage final msg w = on final (\<lambda>f. f\<lparr>bytes := bytes f @ '' '' @ msg\<rparr>) w"
  by (simp add: addMessage_def on_def)

lemma addTime_frame [simp]:
  "sinks (addTime lib enc final t w) = sinks w" "pool (addTime lib enc final t w) = pool w"
  "nxt (addTime lib enc final t w) = nxt w" "metas (addTime lib enc final t w) = metas w"
  "mnxt (addTime lib enc final t w) = mnxt w" "dlogger (addTime lib enc final t w) = dlogger w"
  "q \<noteq> final \<Longrightarrow> heap (addTime lib enc final t w) q = heap w q"
  by (simp_all add: addTime_def Let_def)

text \<open>Whatever the pool hands out, assembling touches \<open>final\<close> alone.\<close>

lemma assemble_frame:
  assumes "assemble lib lv pick enc caller line msg l t w = (final, w8)"
  shows "final = fst (poolGet pick w)" "sinks w8 = sinks w" "metas w8 = metas w"
    "mnxt w8 = mnxt w" "dlogger w8 = dlogger w" "pool w8 = pool (snd (poolGet pick w))"
    "nxt w8 = nxt (snd (poolGet pick w))"
    "\<And>q. q \<noteq> final \<Longrightarrow> heap w8 q = heap w q"
proof -
  obtain p w1 where g: "poolGet pick w = (p, w1)"
    by (cases "poolGet pick w")
  from assms show "final = fst (poolGet pick w)"
    by (auto simp: assemble_def g Let_def)
  then have p: "p = final"
    by (simp add: g)
  from assms show "sinks w8 = sinks w" "metas w8 = metas w" "mnxt w8 = mnxt w"
    "dlogger w8 = dlogger w" "pool w8 = pool (snd (poolGet pick w))"
    "nxt w8 = nxt (snd (poolGet pick w))"
    unfolding assemble_def g addLevel_eq addCaller_eq addMessage_eq
    by (auto simp: Let_def poolGet_frame [OF g])
  fix q assume "q \<noteq> final"
  with assms show "heap w8 q = heap w q"
    unfolding assemble_def g addLevel_eq addCaller_eq addMessage_eq
    by (auto simp: Let_def poolGet_frame(5) [OF g] p)
qed

text \<open>When \<open>final\<close> is not the receiver, the entry assembled is \<open>entryLine\<close>.\<close>

lemma assemble_eq:
  assumes g: "poolGet pick w = (final, w1)" and ne: "final \<noteq> enc"
  shows "assemble lib lv pick enc caller line msg l t w =
     (final, on final (\<lambda>f. f\<lparr>bytes := entryLine lib lv (heap w1 enc) caller line msg l t\<rparr>) w1)"
  using ne unfolding assemble_def g addLevel_eq addCaller_eq addMessage_eq
  by (simp add: addTime_eq Let_def entryLine_def truncate_def on_def)

lemma WriteEntry_eq:
  assumes g: "poolGet pick w = (final, w1)" and ne: "final \<noteq> enc"
  shows "WriteEntry lib lv beh pick enc k caller line msg l t w =
     (let ln = entryLine lib lv (heap w enc) caller line msg l t
      in (writeResult (beh k (sinks w k) ln) ln,
          w1\<lparr>heap := (heap w1)(final := (heap w1 final)\<lparr>bytes := ln\<rparr>),
             sinks := (sinks w)(k := sinks w k @ [Write ln]),
             pool := final # pool w1\<rparr>))"
proof -
  have h: "heap w1 enc = heap w enc" and s: "sinks w1 = sinks w"
    using poolGet_frame [OF g] ne by auto
  show ?thesis
    unfolding WriteEntry_def assemble_eq [OF g ne]
    by (simp add: sinkWrite_def Free_def writeResult_def Let_def on_def h s split_beta
        split: option.splits)
qed

text \<open>In general: one \<open>Write\<close> of what was assembled, and the result read off its answer.\<close>

lemma WriteEntry_general:
  assumes a: "assemble lib lv pick enc caller line msg l t w = (final, w8)"
  shows "WriteEntry lib lv beh pick enc k caller line msg l t w =
     (writeResult (beh k (sinks w k) (bytes (heap w8 final))) (bytes (heap w8 final)),
      w8\<lparr>sinks := (sinks w)(k := sinks w k @ [Write (bytes (heap w8 final))]),
         pool := final # pool w8\<rparr>)"
  unfolding WriteEntry_def a
  by (simp add: sinkWrite_def Free_def writeResult_def Let_def assemble_frame(2) [OF a]
      split_beta split: option.splits)


subsection \<open>What the pool hands out\<close>

lemma nth_not_in_rest:
  assumes "distinct xs" "i < length xs"
  shows "xs ! i \<notin> set (take i xs @ drop (Suc i) xs)"
proof -
  have "xs = take i xs @ xs ! i # drop (Suc i) xs"
    using assms(2) by (simp add: id_take_nth_drop)
  then have "distinct (take i xs @ xs ! i # drop (Suc i) xs)"
    using assms(1) by simp
  then show ?thesis
    by auto
qed

lemma distinct_rest:
  assumes "distinct xs"
  shows "distinct (take i xs @ drop (Suc i) xs)"
  using assms set_take_disj_set_drop_if_distinct [of xs i "Suc i"]
  by simp

lemma poolGet_live:
  assumes ok: "poolOK w" and g: "poolGet pick w = (p, w1)"
  shows "live p w1" "poolOK w1"
proof -
  from poolGet_cases [of pick w] consider
    (new) "poolGet pick w = poolNew w"
  | (old) i where "i < length (pool w)"
      "poolGet pick w = (pool w ! i, w\<lparr>pool := take i (pool w) @ drop (Suc i) (pool w)\<rparr>)"
    by blast
  then have "live p w1 \<and> poolOK w1"
  proof cases
    case new
    with ok g show ?thesis
      by (auto simp: live_def poolOK_def poolNew_def list_all_iff less_Suc_eq)
  next
    case old
    have sub: "set (take i (pool w) @ drop (Suc i) (pool w)) \<subseteq> set (pool w)"
      by (auto dest: in_set_takeD in_set_dropD)
    from old g have p: "p = pool w ! i"
      and w1: "w1 = w\<lparr>pool := take i (pool w) @ drop (Suc i) (pool w)\<rparr>"
      by simp_all
    from ok old(1) have "p < nxt w"
      by (simp add: p poolOK_def list_all_iff)
    moreover from ok old(1) have "p \<notin> set (take i (pool w) @ drop (Suc i) (pool w))"
      unfolding p by (intro nth_not_in_rest) (simp_all add: poolOK_def)
    moreover from ok have "distinct (take i (pool w) @ drop (Suc i) (pool w))"
      by (intro distinct_rest) (simp add: poolOK_def)
    moreover from ok sub have "\<forall>q\<in>set (take i (pool w) @ drop (Suc i) (pool w)). q < nxt w"
      unfolding poolOK_def list_all_iff by blast
    ultimately show ?thesis
      by (simp add: live_def poolOK_def w1 list_all_iff)
  qed
  then show "live p w1" "poolOK w1"
    by simp_all
qed

subsection \<open>The sample world\<close>

lemma world1_simps:
  "nxt world1 = 1" "pool world1 = []"
  "heap world1 0 = \<lparr>bytes = ''svc=api'', timeFmt = RFC3339, firstNested = False\<rparr>"
  "sinks world1 k = []"
  by (simp_all add: world1_def NewTextEncoder_def poolGet_def poolNew_def world0_def
      truncate_def on_def AddString_def addKey_def)

lemma world1_live: "live 0 world1"
  by (simp add: live_def world1_simps)

lemma world1_get:
  "poolGet None world1 = (1, snd (poolNew world1))" "heap (snd (poolNew world1)) 0 = heap world1 0"
  by (simp_all add: poolGet_def poolNew_def world1_simps)

lemma world1_line:
  "entryLine stdlib0 levels0 \<lparr>bytes = ''svc=api'', timeFmt = RFC3339, firstNested = False\<rparr>
     ''file.go'' 42 ''msg'' 0 ''T'' = ''[I] T [file.go:42] msg svc=api'' @ [CHR 0x0A]"
  by code_simp

lemma world1_assembled:
  "bytes (heap (snd (assemble stdlib0 levels0 None 0 ''file.go'' 42 ''msg'' 0 ''T'' world1))
               (fst (assemble stdlib0 levels0 None 0 ''file.go'' 42 ''msg'' 0 ''T'' world1)))
   = ''[I] T [file.go:42] msg svc=api'' @ [CHR 0x0A]"
proof -
  have ne: "(1::nat) \<noteq> 0"
    by simp
  show ?thesis
    by (simp add: assemble_eq [OF world1_get(1) ne] world1_get(2) world1_simps world1_line)
qed

lemma worldNT_simps:
  "nxt worldNT = 1" "pool worldNT = []"
  "heap worldNT 0 = \<lparr>bytes = [], timeFmt = [], firstNested = False\<rparr>"
  "sinks worldNT k = []"
  by (simp_all add: worldNT_def NewTextEncoder_def poolGet_def poolNew_def world0_def
      truncate_def on_def TextNoTime_def TextTimeFormat_def)

lemma sample_tags: "levelTag levels0 0 = ''I''" "AppendInt [] 42 10 = ''42''"
  by code_simp+

subsection \<open>Level tags\<close>

lemma levelTag_standard:
  assumes "levelsDistinct lv"
  shows "levelTag lv (DebugLevel lv) = ''D''" "levelTag lv (InfoLevel lv) = ''I''"
    "levelTag lv (WarnLevel lv) = ''W''" "levelTag lv (ErrorLevel lv) = ''E''"
    "levelTag lv (PanicLevel lv) = ''P''" "levelTag lv (FatalLevel lv) = ''F''"
  using assms by (auto simp: levelsDistinct_def levelTag_def)

lemma levelTag_custom:
  assumes "l \<notin> {DebugLevel lv, InfoLevel lv, WarnLevel lv, ErrorLevel lv, PanicLevel lv,
                 FatalLevel lv}"
  shows "levelTag lv l = formatInt 10 (sint l)"
proof -
  have "sint (scast l :: int64) = sint l"
    by (rule sint_up_scast) (simp add: is_up)
  with assms show ?thesis
    by (simp add: levelTag_def AppendInt_def)
qed

subsection \<open>Digits\<close>





subsection \<open>Floats\<close>















subsection \<open>Keys\<close>

text \<open>
  \<open>addKey\<close> puts a space before the key unless the buffer is empty or the encoder is
  at a first nested field, and leaves the first-nested flag cleared.
\<close>

lemma addKey_eq:
  "addKey key enc =
     \<lparr>bytes = bytes enc @ (if bytes enc = [] \<or> firstNested enc then [] else '' '') @ key @ ''='',
      timeFmt = timeFmt enc, firstNested = False\<rparr>"
  by (cases enc) (simp add: addKey_def Let_def)

lemma AddString_eq:
  "AddString key val enc =
     \<lparr>bytes = bytes enc @ (if bytes enc = [] \<or> firstNested enc then [] else '' '') @ key @ ''=''
               @ val,
      timeFmt = timeFmt enc, firstNested = False\<rparr>"
  by (simp add: AddString_def Let_def addKey_eq)

section \<open>Properties of the encoder\<close>

text \<open>
  C4. \<open>WriteEntry\<close> hands the assembled entry to the sink in one \<open>Write\<close>. When the
  sink reports no error and fewer bytes than the entry has, \<open>WriteEntry\<close> returns the
  error whose message is \<open>incomplete write: only wrote n of m bytes\<close>, with \<open>n\<close> the
  count reported and \<open>m\<close> the length of the entry; when the sink reports an error,
  \<open>WriteEntry\<close> returns that very error. This holds for every encoder, world and sink.
\<close>

theorem WriteEntry_reports_write_failure:
  "let (final, w8) = assemble lib lv pick enc caller line msg l t w;
       bs = bytes (heap w8 final);
       (n, err) = beh k (sinks w k) bs;
       (r, w') = WriteEntry lib lv beh pick enc k caller line msg l t w
   in sinks w' k = sinks w k @ [Write bs] \<and>
      (err = None \<and> n < int (length bs) \<longrightarrow>
         r = Some (ErrorString (''incomplete write: only wrote '' @ formatInt 10 n @ '' of ''
                                @ formatInt 10 (int (length bs)) @ '' bytes''))) \<and>
      (\<forall>e. err = Some e \<longrightarrow> r = Some e)"
proof -
  obtain final w8 where a: "assemble lib lv pick enc caller line msg l t w = (final, w8)"
    by (cases "assemble lib lv pick enc caller line msg l t w")
  show ?thesis
    unfolding a WriteEntry_general [OF a]
    by (auto simp: writeResult_def incompleteWrite_def Let_def split: prod.splits)
qed

theorem WriteEntry_reports_write_failure_witness:
  "fst (WriteEntry stdlib0 levels0 sinkShort None 0 1 ''file.go'' 42 ''msg'' 0 ''T'' world1)
     = Some (ErrorString ''incomplete write: only wrote 3 of 31 bytes'') \<and>
   fst (WriteEntry stdlib0 levels0 sinkFailing None 0 1 ''file.go'' 42 ''msg'' 0 ''T'' world1)
     = Some (Foreign ())"
proof -
  have f: "formatInt 10 3 = ''3''" "formatInt 10 31 = ''31''"
    by code_simp+
  show ?thesis
    using WriteEntry_reports_write_failure [where lib = stdlib0 and lv = levels0 and pick = None
        and enc = 0 and caller = "''file.go''" and line = 42 and msg = "''msg''" and l = 0
        and t = "''T''" and w = world1 and beh = sinkShort and k = 1]
      WriteEntry_reports_write_failure [where lib = stdlib0 and lv = levels0 and pick = None
        and enc = 0 and caller = "''file.go''" and line = 42 and msg = "''msg''" and l = 0
        and t = "''T''" and w = world1 and beh = sinkFailing and k = 1]
    by (simp add: Let_def split_beta world1_assembled f sinkShort_def sinkFailing_def)
qed

text \<open>
  C6. For a live encoder \<open>enc\<close> holding any state, \<open>Clone\<close> returns another encoder
  whose buffer and time format equal those of \<open>enc\<close>; \<open>enc\<close> is as it was, and what
  any method does to the clone afterwards leaves \<open>enc\<close> as it was.
\<close>

theorem Clone_independent:
  assumes "live enc w"
  shows "let (clone, w') = Clone pick enc w
         in clone \<noteq> enc \<and>
            bytes (heap w' clone) = bytes (heap w enc) \<and>
            timeFmt (heap w' clone) = timeFmt (heap w enc) \<and>
            heap w' enc = heap w enc \<and>
            (\<forall>f. heap (on clone f w') enc = heap w enc)"
proof -
  obtain clone w1 where g: "poolGet pick w = (clone, w1)"
    by (cases "poolGet pick w")
  have ne: "clone \<noteq> enc"
    using poolGet_live_neq [OF assms g] .
  then have h: "heap w1 enc = heap w enc"
    using poolGet_frame(5) [OF g] by simp
  show ?thesis
    using ne h by (simp add: Clone_def g Let_def truncate_def)
qed

theorem Clone_independent_witness:
  "live 0 world1 \<and>
   bytes (heap (snd (Clone None 0 world1)) (fst (Clone None 0 world1))) = ''svc=api'' \<and>
   timeFmt (heap (snd (Clone None 0 world1)) (fst (Clone None 0 world1))) = RFC3339 \<and>
   bytes (heap (on (fst (Clone None 0 world1)) (AddString ''k'' ''v'') (snd (Clone None 0 world1))) 0)
     = ''svc=api''"
  using Clone_independent [OF world1_live, of None] world1_live
  by (simp add: split_beta Let_def world1_simps)

text \<open>
  C10. \<open>WriteEntry\<close> on a live encoder takes another encoder as \<open>final\<close> and leaves
  the receiver's buffer, time format and first-nested flag as they were, whatever the
  sink answers; no encoder but \<open>final\<close> changes.
\<close>

theorem WriteEntry_keeps_receiver:
  assumes "live enc w"
  shows "fst (poolGet pick w) \<noteq> enc \<and>
         heap (snd (WriteEntry lib lv beh pick enc k caller line msg l t w)) enc = heap w enc \<and>
         (\<forall>p. p \<noteq> fst (poolGet pick w) \<longrightarrow>
              heap (snd (WriteEntry lib lv beh pick enc k caller line msg l t w)) p = heap w p)"
proof -
  obtain final w1 where g: "poolGet pick w = (final, w1)"
    by (cases "poolGet pick w")
  have ne: "final \<noteq> enc"
    using poolGet_live_neq [OF assms g] .
  show ?thesis
    unfolding WriteEntry_eq [OF g ne] g using ne poolGet_frame(5) [OF g]
    by (simp add: Let_def)
qed

theorem WriteEntry_keeps_receiver_witness:
  "live 0 world1 \<and>
   heap (snd (WriteEntry stdlib0 levels0 sinkShort None 0 1 ''file.go'' 42 ''msg'' 0 ''T'' world1)) 0
     = \<lparr>bytes = ''svc=api'', timeFmt = RFC3339, firstNested = False\<rparr> \<and>
   heap (snd (WriteEntry stdlib0 levels0 sinkFailing None 0 1 ''file.go'' 42 ''msg'' 0 ''T'' world1)) 0
     = \<lparr>bytes = ''svc=api'', timeFmt = RFC3339, firstNested = False\<rparr>"
  using WriteEntry_keeps_receiver [OF world1_live, where pick = None and lib = stdlib0
      and lv = levels0 and beh = sinkShort and k = 1 and caller = "''file.go''" and line = 42
      and msg = "''msg''" and l = 0 and t = "''T''"]
    WriteEntry_keeps_receiver [OF world1_live, where pick = None and lib = stdlib0
      and lv = levels0 and beh = sinkFailing and k = 1 and caller = "''file.go''" and line = 42
      and msg = "''msg''" and l = 0 and t = "''T''"]
    world1_live
  by (simp add: world1_simps)


text \<open>
  C7. An encoder made with the no-time option has the empty time format. For a live
  encoder whose time format is empty, the entry written is the level tag in brackets,
  one space, the caller in brackets, the message, the context if any, and a newline:
  no timestamp, and exactly one space between \<open>]\<close> and \<open>[\<close>.
\<close>

theorem no_time_no_timestamp:
  assumes "live enc w" and "timeFmt (heap w enc) = []"
  shows "timeFmt (heap (snd (NewTextEncoder [TextNoTime] pick' w'))
                       (fst (NewTextEncoder [TextNoTime] pick' w'))) = [] \<and>
         sinks (snd (WriteEntry lib lv beh pick enc k caller line msg l t w)) k =
           sinks w k @
           [Write (''['' @ levelTag lv l @ ''] ['' @ caller @ '':''
                   @ AppendInt [] (word_of_int line) 10 @ ''] '' @ msg
                   @ (if bytes (heap w enc) = [] then [] else '' '' @ bytes (heap w enc))
                   @ [CHR 0x0A])]"
proof -
  obtain final w1 where g: "poolGet pick w = (final, w1)"
    by (cases "poolGet pick w")
  have ne: "final \<noteq> enc"
    using poolGet_live_neq [OF assms(1) g] .
  show ?thesis
    unfolding WriteEntry_eq [OF g ne] using assms(2)
    by (simp add: Let_def entryLine_def NewTextEncoder_def split_beta TextNoTime_def
        TextTimeFormat_def)
qed

theorem no_time_no_timestamp_witness:
  "live 0 worldNT \<and> timeFmt (heap worldNT 0) = [] \<and>
   sinks (snd (WriteEntry stdlib0 levels0 sinkFull None 0 1 ''file.go'' 42 ''msg'' 0 ''T'' worldNT)) 1
     = [Write (''[I] [file.go:42] msg'' @ [CHR 0x0A])]"
proof -
  have l: "live 0 worldNT"
    by (simp add: live_def worldNT_simps)
  have t: "timeFmt (heap worldNT 0) = []"
    by (simp add: worldNT_simps)
  show ?thesis
    using no_time_no_timestamp [OF l t, where lib = stdlib0 and lv = levels0 and beh = sinkFull
        and pick = None and k = 1 and caller = "''file.go''" and line = 42 and msg = "''msg''"
        and l = 0 and t = "''T''"] l
    by (simp add: worldNT_simps sample_tags)
qed

text \<open>
  C5. \<open>AddMarshaler\<close> appends the key (after a space, unless the buffer is empty or
  the encoder is itself at a first nested field), \<open>=\<close> and \<open>{\<close>, runs the callback
  on the encoder with the first-nested flag set, then appends \<open>}\<close> and clears the
  flag whatever the callback returned, and returns the callback's error. A callback
  that adds one string field renders it right after \<open>{\<close>; the object adding \<open>a=1\<close>
  and \<open>b=2\<close> renders as \<open>key={a=1 b=2}\<close>.
\<close>

theorem AddMarshaler_renders:
  "AddMarshaler key obj enc =
     (let enc3 = \<lparr>bytes = bytes enc @ (if bytes enc = [] \<or> firstNested enc then [] else '' '')
                            @ key @ ''={'',
                   timeFmt = timeFmt enc, firstNested = True\<rparr>;
          (err, enc4) = obj enc3
      in (err, enc4\<lparr>bytes := bytes enc4 @ ''}'', firstNested := False\<rparr>)) \<and>
   bytes (snd (AddMarshaler key (\<lambda>kv. (err1, AddString k v kv)) enc)) =
     bytes enc @ (if bytes enc = [] \<or> firstNested enc then [] else '' '')
     @ key @ ''={'' @ k @ ''='' @ v @ ''}'' \<and>
   bytes (snd (AddMarshaler ''key''
                 (\<lambda>kv. (err2, AddString ''b'' ''2'' (AddString ''a'' ''1'' kv)))
                 \<lparr>bytes = [], timeFmt = tf, firstNested = fn\<rparr>)) = ''key={a=1 b=2}''"
proof -
  define enc3 where
    "enc3 = \<lparr>bytes = bytes enc @ (if bytes enc = [] \<or> firstNested enc then [] else '' '')
                       @ key @ ''={'',
              timeFmt = timeFmt enc, firstNested = True\<rparr>"
  have opened: "(addKey key enc)\<lparr>firstNested := True, bytes := bytes (addKey key enc) @ ''{''\<rparr>
      = enc3"
    by (simp add: addKey_eq enc3_def)
  have general: "AddMarshaler key obj enc =
      (let (err, enc4) = obj enc3
       in (err, enc4\<lparr>bytes := bytes enc4 @ ''}'', firstNested := False\<rparr>))"
    by (simp add: AddMarshaler_def Let_def split_beta opened)
  have one: "bytes (snd (AddMarshaler key (\<lambda>kv. (err1, AddString k v kv)) enc)) =
      bytes enc @ (if bytes enc = [] \<or> firstNested enc then [] else '' '')
      @ key @ ''={'' @ k @ ''='' @ v @ ''}''"
    by (simp add: AddMarshaler_def Let_def addKey_eq AddString_eq)
  have two: "bytes (snd (AddMarshaler ''key''
                 (\<lambda>kv. (err2, AddString ''b'' ''2'' (AddString ''a'' ''1'' kv)))
                 \<lparr>bytes = [], timeFmt = tf, firstNested = fn\<rparr>)) = ''key={a=1 b=2}''"
    by (simp add: AddMarshaler_def Let_def addKey_eq AddString_eq)
  from general one two show ?thesis
    unfolding enc3_def Let_def by (intro conjI)
qed



section \<open>The logger\<close>

lemma Clone_frame:
  assumes "Clone pick enc w = (c, w5)"
  shows "c = fst (poolGet pick w)" "sinks w5 = sinks w" "metas w5 = metas w" "mnxt w5 = mnxt w"
    "dlogger w5 = dlogger w" "pool w5 = pool (snd (poolGet pick w))"
    "nxt w5 = nxt (snd (poolGet pick w))"
proof -
  obtain p w1 where g: "poolGet pick w = (p, w1)"
    by (cases "poolGet pick w")
  from assms show "c = fst (poolGet pick w)" "sinks w5 = sinks w" "metas w5 = metas w"
    "mnxt w5 = mnxt w" "dlogger w5 = dlogger w" "pool w5 = pool (snd (poolGet pick w))"
    "nxt w5 = nxt (snd (poolGet pick w))"
    by (auto simp: Clone_def g Let_def poolGet_frame [OF g])
qed

lemma Clone_eq:
  assumes g: "poolGet pick w = (clone, w1)" and ne: "clone \<noteq> enc"
  shows "Clone pick enc w = (clone, w1\<lparr>heap := (heap w1)(clone := heap w enc)\<rparr>)"
proof -
  have h: "heap w1 enc = heap w enc"
    using poolGet_frame(5) [OF g] ne by simp
  have eq: "c\<lparr>bytes := bytes e, timeFmt := timeFmt e, firstNested := firstNested e\<rparr> = e"
    for c e :: textEncoder
    by (cases c, cases e) simp
  show ?thesis
    using ne by (simp add: Clone_def g Let_def truncate_def on_def h eq)
qed

lemma internalError_sinks:
  "sinks (internalError beh a msg w) =
     (sinks w)(ErrorOutput (metas w a) :=
                 sinks w (ErrorOutput (metas w a)) @ [Write (msg @ [CHR 0x0A]), Sync])"
  by (simp add: internalError_def sinkWrite_def sinkSync_def Let_def)

text \<open>An enabled call hands an entry to \<open>Output\<close>, whatever the pool and the sinks do.\<close>

lemma log_emits:
  assumes "sint (Level a w) \<le> sint l"
  shows "\<exists>bs rest. sinks (log lib lv beh desc rd a l msg flds w) (Output (metas w a))
           = sinks w (Output (metas w a)) @ Write bs # rest"
proof -
  obtain temp w1 where c: "Clone (pickClone rd) (Encoder (metas w a)) w = (temp, w1)"
    by (cases "Clone (pickClone rd) (Encoder (metas w a)) w")
  define w2 where "w2 = on temp (addFields lib flds) w1"
  have f2: "sinks w2 = sinks w" "metas w2 = metas w"
    by (simp_all add: w2_def Clone_frame [OF c])
  obtain caller line where cl: "CallerName1 (rtCaller rd) = (caller, line)"
    by (cases "CallerName1 (rtCaller rd)")
  obtain final w8 where
    as: "assemble lib lv (pickFinal rd) temp caller line msg l (timeNow rd) w2 = (final, w8)"
    by (cases "assemble lib lv (pickFinal rd) temp caller line msg l (timeNow rd) w2")
  define k where "k = Output (metas w a)"
  define bs where "bs = bytes (heap w8 final)"
  define r where "r = writeResult (beh k (sinks w k) bs) bs"
  define w3 where "w3 = w8\<lparr>sinks := (sinks w)(k := sinks w k @ [Write bs]), pool := final # pool w8\<rparr>"
  have we: "WriteEntry lib lv beh (pickFinal rd) temp k caller line msg l (timeNow rd) w2 = (r, w3)"
    by (simp add: WriteEntry_general [OF as] f2 r_def w3_def bs_def)
  have m3: "metas w3 = metas w"
    by (simp add: w3_def assemble_frame(3) [OF as] f2)
  have lg: "log lib lv beh desc rd a l msg flds w =
      Free temp (case r of Some e \<Rightarrow> internalError beh a (ErrorText desc e) w3 | None \<Rightarrow> w3)"
    using assms
    unfolding log_def c Let_def prod.case w2_def [symmetric] cl f2 k_def [symmetric] we
    by simp
  show ?thesis
  proof (cases r)
    case None
    then show ?thesis
      by (simp add: lg Free_def w3_def k_def)
  next
    case (Some e)
    then show ?thesis
      by (simp add: lg Free_def internalError_sinks m3) (simp add: w3_def k_def)
  qed
qed

text \<open>
  With the pool in order and the logger's encoder live, the calls the sinks receive:
  the entry with the fields of the call after the context, and the error line on
  \<open>ErrorOutput\<close> when \<open>WriteEntry\<close> returns an error.
\<close>

lemma log_sinks:
  assumes ok: "poolOK w" and lv: "live (Encoder (metas w a)) w"
    and en: "sint (Level a w) \<le> sint l"
  shows "sinks (log lib lv beh desc rd a l msg flds w) =
     (let ln = entryLine lib lv (addFields lib flds (heap w (Encoder (metas w a))))
                 (fst (CallerName1 (rtCaller rd))) (snd (CallerName1 (rtCaller rd))) msg l
                 (timeNow rd);
          k = Output (metas w a);
          s1 = (sinks w)(k := sinks w k @ [Write ln])
      in case writeResult (beh k (sinks w k) ln) ln of
           None \<Rightarrow> s1
         | Some e \<Rightarrow>
             s1(ErrorOutput (metas w a) :=
                  s1 (ErrorOutput (metas w a)) @ [Write (ErrorText desc e @ [CHR 0x0A]), Sync]))"
proof -
  define enc where "enc = Encoder (metas w a)"
  obtain temp w1 where g1: "poolGet (pickClone rd) w = (temp, w1)"
    by (cases "poolGet (pickClone rd) w")
  have ne1: "temp \<noteq> enc"
    using poolGet_live_neq [OF lv g1] by (simp add: enc_def)
  have c: "Clone (pickClone rd) enc w = (temp, w1\<lparr>heap := (heap w1)(temp := heap w enc)\<rparr>)"
    by (rule Clone_eq [OF g1 ne1])
  define w2 where "w2 = on temp (addFields lib flds) (w1\<lparr>heap := (heap w1)(temp := heap w enc)\<rparr>)"
  have f2: "sinks w2 = sinks w" "metas w2 = metas w" "nxt w2 = nxt w1" "pool w2 = pool w1"
    "heap w2 temp = addFields lib flds (heap w enc)"
    by (simp_all add: w2_def poolGet_frame [OF g1])
  have "live temp w1"
    by (rule poolGet_live(1) [OF ok g1])
  then have lt: "live temp w2"
    by (simp add: live_def f2)
  obtain final w3 where g2: "poolGet (pickFinal rd) w2 = (final, w3)"
    by (cases "poolGet (pickFinal rd) w2")
  have ne2: "final \<noteq> temp"
    by (rule poolGet_live_neq [OF lt g2])
  obtain caller line where cl: "CallerName1 (rtCaller rd) = (caller, line)"
    by (cases "CallerName1 (rtCaller rd)")
  define k where "k = Output (metas w a)"
  define ln where "ln = entryLine lib lv (addFields lib flds (heap w enc)) caller line msg l (timeNow rd)"
  define r where "r = writeResult (beh k (sinks w k) ln) ln"
  define w4 where "w4 = w3\<lparr>heap := (heap w3)(final := (heap w3 final)\<lparr>bytes := ln\<rparr>),
             sinks := (sinks w)(k := sinks w k @ [Write ln]),
             pool := final # pool w3\<rparr>"
  have we: "WriteEntry lib lv beh (pickFinal rd) temp k caller line msg l (timeNow rd) w2 = (r, w4)"
    by (simp add: WriteEntry_eq [OF g2 ne2] f2 Let_def r_def w4_def ln_def)
  have m4: "metas w4 = metas w"
    by (simp add: w4_def poolGet_frame [OF g2] f2)
  have lg: "log lib lv beh desc rd a l msg flds w =
      Free temp (case r of Some e \<Rightarrow> internalError beh a (ErrorText desc e) w4 | None \<Rightarrow> w4)"
    using en
    unfolding log_def enc_def [symmetric] c Let_def prod.case w2_def [symmetric] cl f2
      k_def [symmetric] we
    by simp
  show ?thesis
    unfolding lg Let_def cl fst_conv snd_conv enc_def [symmetric] k_def [symmetric]
      ln_def [symmetric] r_def [symmetric]
    by (cases r) (simp_all add: Free_def internalError_sinks m4, simp_all add: w4_def)
qed

lemma worldL_simps:
  "dlogger worldL = Some 0"
  "metas worldL 0 = \<lparr>Development = False, Encoder = 0, Output = 3, ErrorOutput = 2, lvl = 0\<rparr>"
  "heap worldL 0 = \<lparr>bytes = [], timeFmt = RFC3339, firstNested = False\<rparr>"
  "nxt worldL = 1" "pool worldL = []" "sinks worldL k = []"
  by (simp_all add: worldL_def Init_def NewTextEncoder_def poolGet_def poolNew_def world0_def
      truncate_def on_def MakeMeta_def newLockedWriteSyncer_def Stdout_def Stderr_def
      levels0_def Let_def)

lemma worldL_ok: "poolOK worldL" "live 0 worldL"
  by (simp_all add: poolOK_def live_def worldL_simps)

lemma reading0_caller: "CallerName1 (rtCaller reading0) = (''file.go'', 42)"
  by code_simp


section \<open>Properties of the logger\<close>

text \<open>
  C3. With threshold \<open>T = Level a w\<close> and any call level \<open>L\<close> (a standard or a custom
  one: any 32-bit integer), \<open>log\<close> hands an entry to \<open>Output\<close> if and only if
  \<open>L \<ge> T\<close>. When \<open>L < T\<close> the world is as before: no encoder was taken from the
  pool or cloned, and no sink was called.
\<close>

theorem log_level_gate:
  "(sint l < sint (Level a w) \<longrightarrow> log lib lv beh desc rd a l msg flds w = w) \<and>
   (sint (Level a w) \<le> sint l \<longrightarrow>
      (\<exists>bs rest. sinks (log lib lv beh desc rd a l msg flds w) (Output (metas w a))
           = sinks w (Output (metas w a)) @ Write bs # rest)) \<and>
   (sinks (log lib lv beh desc rd a l msg flds w) (Output (metas w a))
      \<noteq> sinks w (Output (metas w a)) \<longleftrightarrow> sint (Level a w) \<le> sint l)"
proof (cases "sint (Level a w) \<le> sint l")
  case True
  have "\<exists>bs rest. sinks (log lib lv beh desc rd a l msg flds w) (Output (metas w a))
           = sinks w (Output (metas w a)) @ Write bs # rest"
    by (rule log_emits [OF True])
  with True show ?thesis
    by auto
next
  case False
  then show ?thesis
    by (simp add: log_def)
qed

theorem log_level_gate_witness:
  "log stdlib0 levels0 sinkFull errText0 reading0 0 (DebugLevel levels0) ''m''
     ([] :: (unit, unit) Field list) worldL = worldL \<and>
   sinks (log stdlib0 levels0 sinkFull errText0 reading0 0 (InfoLevel levels0) ''m''
            ([] :: (unit, unit) Field list) worldL) 3 \<noteq> sinks worldL 3 \<and>
   sinks (log stdlib0 levels0 sinkFull errText0 reading0 0 7 ''m''
            ([] :: (unit, unit) Field list) worldL) 3 \<noteq> sinks worldL 3"
proof -
  have l: "Level 0 worldL = 0" "Output (metas worldL 0) = 3"
    by (simp_all add: Level_def worldL_simps)
  show ?thesis
    using log_level_gate [where l = "DebugLevel levels0" and a = 0 and w = worldL
        and lib = stdlib0 and lv = levels0 and beh = sinkFull and desc = errText0
        and rd = reading0 and msg = "''m''" and flds = "[] :: (unit, unit) Field list"]
      log_level_gate [where l = "InfoLevel levels0" and a = 0 and w = worldL
        and lib = stdlib0 and lv = levels0 and beh = sinkFull and desc = errText0
        and rd = reading0 and msg = "''m''" and flds = "[] :: (unit, unit) Field list"]
      log_level_gate [where l = 7 and a = 0 and w = worldL
        and lib = stdlib0 and lv = levels0 and beh = sinkFull and desc = errText0
        and rd = reading0 and msg = "''m''" and flds = "[] :: (unit, unit) Field list"]
    by (simp add: l levels0_def)
qed

text \<open>
  C1. The default logger is at \<open>InfoLevel\<close>, its encoder has the RFC 3339 time format
  and no context, the pool is in order, and its error sink is another sink than its
  output. \<open>Info("reqprice:", String("key", "apple"), Int("price", 100))\<close>, at a time
  that reads \<open>2024-01-01T00:00:00Z\<close> and called from \<open>file.go\<close> line 42, then makes
  the output sink receive one more call: the \<open>Write\<close> of the line
  \<open>[I] 2024-01-01T00:00:00Z [file.go:42] reqprice: key=apple price=100\<close> and a newline.
\<close>

theorem Info_writes_one_line:
  assumes "dlogger w = Some a"
    and "Level a w = InfoLevel lv"
    and "DebugLevel lv \<noteq> InfoLevel lv"
    and "poolOK w"
    and "live (Encoder (metas w a)) w"
    and "timeFmt (heap w (Encoder (metas w a))) = RFC3339"
    and "bytes (heap w (Encoder (metas w a))) = []"
    and "Output (metas w a) \<noteq> ErrorOutput (metas w a)"
    and "TimeFormat lib (timeNow rd) RFC3339 = ''2024-01-01T00:00:00Z''"
    and "CallerName1 (rtCaller rd) = (''file.go'', 42)"
  shows "map_option (\<lambda>w'. sinks w' (Output (metas w a)))
           (Info lib lv beh desc rd ''reqprice:'' [String ''key'' ''apple'', Int' ''price'' 100] w)
         = Some (sinks w (Output (metas w a))
                 @ [Write (''[I] 2024-01-01T00:00:00Z [file.go:42] reqprice: key=apple price=100''
                           @ [CHR 0x0A])])"
proof -
  have en: "sint (Level a w) \<le> sint (InfoLevel lv)"
    by (simp add: assms(2))
  obtain e where e: "heap w (Encoder (metas w a)) = \<lparr>bytes = [], timeFmt = RFC3339, firstNested = e\<rparr>"
    using assms(6,7) by (cases "heap w (Encoder (metas w a))") simp
  have d: "formatBits 10 100 = ''100''" "formatBits 10 42 = ''42''"
    by code_simp+
  have af: "addFields lib [String ''key'' ''apple'', Int' ''price'' 100]
              \<lparr>bytes = [], timeFmt = RFC3339, firstNested = e\<rparr>
            = \<lparr>bytes = ''key=apple price=100'', timeFmt = RFC3339, firstNested = False\<rparr>"
    by (simp add: addFields_def Int'_def AddString_def AddInt64_def addKey_def AppendInt_def
        formatInt_def d)
  have ln: "entryLine lib lv \<lparr>bytes = ''key=apple price=100'', timeFmt = RFC3339, firstNested = False\<rparr>
               ''file.go'' 42 ''reqprice:'' (InfoLevel lv) (timeNow rd)
            = ''[I] 2024-01-01T00:00:00Z [file.go:42] reqprice: key=apple price=100'' @ [CHR 0x0A]"
    using assms(3,9)
    by (simp add: entryLine_def levelTag_def AppendInt_def formatInt_def d RFC3339_def)
  show ?thesis
    using assms(1,8)
    by (simp add: Info_def log_sinks [OF assms(4,5) en] Let_def assms(10) e af ln
        split: option.splits)
qed

theorem Info_writes_one_line_witness:
  "map_option (\<lambda>w'. sinks w' 3)
     (Info stdlib0 levels0 sinkFull errText0 reading0 ''reqprice:''
        [String ''key'' ''apple'', Int' ''price'' 100] worldL)
   = Some [Write (''[I] 2024-01-01T00:00:00Z [file.go:42] reqprice: key=apple price=100''
                  @ [CHR 0x0A])]"
proof -
  have h: "dlogger worldL = Some 0" "Level 0 worldL = InfoLevel levels0"
    "DebugLevel levels0 \<noteq> InfoLevel levels0" "poolOK worldL"
    "live (Encoder (metas worldL 0)) worldL"
    "timeFmt (heap worldL (Encoder (metas worldL 0))) = RFC3339"
    "bytes (heap worldL (Encoder (metas worldL 0))) = []"
    "Output (metas worldL 0) \<noteq> ErrorOutput (metas worldL 0)"
    "TimeFormat stdlib0 (timeNow reading0) RFC3339 = ''2024-01-01T00:00:00Z''"
    "CallerName1 (rtCaller reading0) = (''file.go'', 42)"
    by (simp_all add: worldL_simps worldL_ok Level_def levels0_def stdlib0_def reading0_caller)
        (simp add: reading0_def)
  show ?thesis
    using Info_writes_one_line [OF h, of sinkFull errText0]
    by (simp add: worldL_simps)
qed




lemma SetLevel_cells:
  "lvl (metas (SetLevel a l w) (mnxt w)) = l"
  "b \<noteq> mnxt w \<Longrightarrow> metas (SetLevel a l w) b = metas w b"
  by (simp_all add: SetLevel_def Let_def)

text \<open>
  C2. \<open>SetLevel\<close> stores into the copy of the struct that its value receiver is
  (cell \<open>mnxt\<close>, which nothing refers to afterwards). With \<open>m := MakeMeta(enc)\<close> at
  \<open>InfoLevel\<close>, after \<open>m.SetLevel(DebugLevel)\<close> the clone \<open>m.Clone()\<close>, the copy
  \<open>c := m\<close> and \<open>m\<close> itself all still report \<open>InfoLevel\<close>.
\<close>

theorem SetLevel_reaches_no_copy:
  "InfoLevel levels0 \<noteq> DebugLevel levels0 \<and>
   Level 0 worldM = InfoLevel levels0 \<and>
   Level (fst (MetaClone None 0 worldM))
     (SetLevel 0 (DebugLevel levels0) (snd (MetaClone None 0 worldM))) = InfoLevel levels0 \<and>
   Level (fst (MetaCopy 0 worldM))
     (SetLevel 0 (DebugLevel levels0) (snd (MetaCopy 0 worldM))) = InfoLevel levels0 \<and>
   Level 0 (SetLevel 0 (DebugLevel levels0) worldM) = InfoLevel levels0 \<and>
   lvl (metas (SetLevel 0 (DebugLevel levels0) worldM) (mnxt worldM)) = DebugLevel levels0"
  by (simp add: Level_def SetLevel_def MetaClone_def MetaCopy_def worldM_def MakeMeta_def
      levels0_def Let_def split_beta Clone_frame [OF surjective_pairing])

end
